theory Spec2Isabelle
  imports Complex_Main
begin

section \<open>JavaScript strings and values\<close>

text \<open>
  Strings are modelled as lists of 8-bit characters; \<open>toLowerCase\<close>, \<open>toUpperCase\<close> and
  \<open>trim\<close> act on the ASCII letters and the ASCII white space, which is what they do on
  ASCII input in JavaScript.
\<close>

definition toLowerCase_char :: "char \<Rightarrow> char" where
  "toLowerCase_char c =
     (let n = (of_char c :: nat) in if 65 \<le> n \<and> n \<le> 90 then char_of (n + 32) else c)"

definition toUpperCase_char :: "char \<Rightarrow> char" where
  "toUpperCase_char c =
     (let n = (of_char c :: nat) in if 97 \<le> n \<and> n \<le> 122 then char_of (n - 32) else c)"

definition toLowerCase :: "string \<Rightarrow> string" where
  "toLowerCase s = map toLowerCase_char s"

definition toUpperCase :: "string \<Rightarrow> string" where
  "toUpperCase s = map toUpperCase_char s"

definition isWhiteSpace :: "char \<Rightarrow> bool" where
  "isWhiteSpace c = (let n = (of_char c :: nat) in n = 32 \<or> (9 \<le> n \<and> n \<le> 13))"

definition trim :: "string \<Rightarrow> string" where
  "trim s = rev (dropWhile isWhiteSpace (rev (dropWhile isWhiteSpace s)))"

text \<open>
  \<open>s.replace(p, r)\<close> with a string pattern replaces the first occurrence only. The
  source calls it with the one-character pattern \<open>" "\<close>.
\<close>

fun replace_first :: "char \<Rightarrow> char \<Rightarrow> string \<Rightarrow> string" where
  "replace_first p r [] = []"
| "replace_first p r (c # cs) = (if c = p then r # cs else c # replace_first p r cs)"

text \<open>Decimal rendering of a non-negative integer, as string concatenation does.\<close>

fun string_of_nat :: "nat \<Rightarrow> string" where
  "string_of_nat n =
     (if n < 10 then [char_of (48 + n)]
      else string_of_nat (n div 10) @ [char_of (48 + n mod 10)])"

text \<open>
  A numeric property that may be missing: \<open>undefined\<close> on an object built from a DTO
  without the field, \<open>null\<close> when loaded from a nullable column.
\<close>

datatype jsnumber = Undefined | Null | Num nat

fun string_of_jsnumber :: "jsnumber \<Rightarrow> string" where
  "string_of_jsnumber Undefined = ''undefined''"
| "string_of_jsnumber Null = ''null''"
| "string_of_jsnumber (Num n) = string_of_nat n"

section \<open>Errors\<close>

text \<open>
  An error object thrown by the persistence layer: PostgreSQL errors carry a \<open>code\<close>
  and a \<open>detail\<close>; other errors (lost connection, no transaction started) have no code.
\<close>

record error =
  e_code :: "string option"
  e_detail :: string

text \<open>
  What a service call can throw: one of the HTTP exceptions of the framework, or an error
  object that nobody caught.
\<close>

datatype exn =
    NotFoundException string
  | UnauthorizedException string
  | ForbiddenException string
  | InternalServerErrorException string
  | Thrown error

section \<open>Accounts and the role guard\<close>

text \<open>
  The \<open>User\<close> entity as an object in memory. A property is \<open>None\<close> when the object
  does not have it: the id before the insert, the password after \<open>delete user.password\<close>,
  every column that a \<open>select\<close> left out.
\<close>

record user =
  u_id :: "nat option"
  u_email :: string
  u_fullName :: "string option"
  u_password :: "string option"
  u_isActive :: "bool option"
  u_roles :: "string list option"

text \<open>
  The execution context of a request, as far as the guard reads it: the metadata attached
  to the route handler (key to value) and the \<open>user\<close> attached to the request by the
  authentication guard.
\<close>

record execution_context =
  handler_metadata :: "string \<Rightarrow> string list option"
  request_user :: "user option"

definition user_roles :: "user \<Rightarrow> string list" where
  "user_roles usr = (case u_roles usr of None \<Rightarrow> [] | Some rs \<Rightarrow> rs)"

definition reflector_get :: "string \<Rightarrow> execution_context \<Rightarrow> string list option" where
  "reflector_get k context = handler_metadata context k"

text \<open>\<open>UserRoleGuard.canActivate\<close>: reads the roles of the handler and returns \<open>true\<close>.\<close>

definition canActivate :: "execution_context \<Rightarrow> exn + bool" where
  "canActivate context = (let validRoles = reflector_get ''roles'' context in Inr True)"

text \<open>
  The implementation that the comment inside \<open>canActivate\<close> gives as the correct one
  ("Implementacion correcta deberia ser"), transcribed from that comment.
\<close>

definition canActivate_documented :: "execution_context \<Rightarrow> exn + bool" where
  "canActivate_documented context =
     (case reflector_get ''roles'' context of
        None \<Rightarrow> Inr True
      | Some validRoles \<Rightarrow>
          if validRoles = [] then Inr True
          else (case request_user context of
                  None \<Rightarrow> Inr False
                | Some usr \<Rightarrow>
                    if \<not> list_ex (\<lambda>role. role \<in> set (user_roles usr)) validRoles
                    then Inl (ForbiddenException ''User does not have required role'')
                    else Inr True))"

definition teacher_account :: user where
  "teacher_account =
     \<lparr>u_id = Some 1, u_email = ''ana@mail.com'', u_fullName = Some ''Ana'',
      u_password = None, u_isActive = Some True, u_roles = Some [''teacher'']\<rparr>"

definition admin_route_context :: execution_context where
  "admin_route_context =
     \<lparr>handler_metadata = (\<lambda>k. if k = ''roles'' then Some [''admin''] else None),
      request_user = Some teacher_account\<rparr>"

section \<open>Account directory and auth workflow\<close>

text \<open>A row of the \<open>user\<close> table. Ids are UUIDs in the source, numbers here.\<close>

record user_row =
  ur_id :: nat
  ur_email :: string
  ur_fullName :: string
  ur_password :: string
  ur_isActive :: bool
  ur_roles :: "string list"

record CreateUserDto =
  cu_email :: string
  cu_fullName :: string
  cu_password :: string

record LoginDto =
  l_email :: string
  l_password :: string

text \<open>The token payload \<open>{id: user.id, email: user.email}\<close>.\<close>

record Jwt =
  jwt_id :: "nat option"
  jwt_email :: string

text \<open>
  The libraries the service calls, taken as parameters: \<open>bcrypt.hashSync(p, 10)\<close>,
  \<open>bcrypt.compareSync(p, h)\<close> and \<open>jwtService.sign(payload)\<close>.
\<close>

record crypto =
  hashSync :: "string \<Rightarrow> string"
  compareSync :: "string \<Rightarrow> string \<Rightarrow> bool"
  sign :: "Jwt \<Rightarrow> string"

text \<open>
  The state the auth service works on: the \<open>user\<close> table, the source of fresh ids, and
  what \<open>logger.error\<close> has written.
\<close>

record auth_state =
  users :: "user_row list"
  user_seq :: nat
  auth_log :: "error list"

text \<open>The response \<open>{...user, token}\<close> of register and login.\<close>

record auth_response =
  r_user :: user
  r_token :: string

text \<open>\<open>User.checkFieldsBeforeChanges\<close>, the hook run before insert and update.\<close>

definition checkFieldsBeforeChanges :: "user \<Rightarrow> user" where
  "checkFieldsBeforeChanges usr = usr\<lparr>u_email := trim (toLowerCase (u_email usr))\<rparr>"

text \<open>
  The errors of PostgreSQL the model raises: 23505 for a unique constraint, with the detail
  the comments of the source quote, and 23502 for a missing value of a NOT NULL column.
\<close>

definition unique_violation :: "string \<Rightarrow> string \<Rightarrow> error" where
  "unique_violation column v =
     \<lparr>e_code = Some ''23505'',
      e_detail = ''Key ('' @ column @ '')=('' @ v @ '') already exists.''\<rparr>"

definition not_null_violation :: "string \<Rightarrow> error" where
  "not_null_violation column =
     \<lparr>e_code = Some ''23502'', e_detail = ''Failing row contains a null in '' @ column\<rparr>"

definition user_of_row :: "user_row \<Rightarrow> user" where
  "user_of_row r =
     \<lparr>u_id = Some (ur_id r), u_email = ur_email r, u_fullName = Some (ur_fullName r),
      u_password = Some (ur_password r), u_isActive = Some (ur_isActive r),
      u_roles = Some (ur_roles r)\<rparr>"

text \<open>
  \<open>userRepository.create\<close> builds the object from the DTO fields and the hashed password;
  \<open>userRepository.save\<close> of an object without id runs the hook, then inserts: the
  \<open>fault\<close> is an error of the database that is not caused by the data (a lost connection),
  the unique index on \<open>email\<close> rejects a stored email, the columns without a value take
  their defaults (\<open>isActive\<close> true, \<open>roles\<close> \<open>['teacher']\<close>), and the saved object gets
  the generated id and the defaults.
\<close>

definition userRepository_create :: "string \<Rightarrow> string \<Rightarrow> string \<Rightarrow> user" where
  "userRepository_create email fullName password =
     \<lparr>u_id = None, u_email = email, u_fullName = Some fullName, u_password = Some password,
      u_isActive = None, u_roles = None\<rparr>"

definition userRepository_save ::
  "error option \<Rightarrow> user \<Rightarrow> auth_state \<Rightarrow> (error + user) \<times> auth_state" where
  "userRepository_save fault usr st =
     (case fault of
        Some e \<Rightarrow> (Inl e, st)
      | None \<Rightarrow>
          (let usr1 = checkFieldsBeforeChanges usr in
           case u_fullName usr1 of
             None \<Rightarrow> (Inl (not_null_violation ''fullName''), st)
           | Some fullName \<Rightarrow>
              (case u_password usr1 of
                 None \<Rightarrow> (Inl (not_null_violation ''password''), st)
               | Some password \<Rightarrow>
                   if list_ex (\<lambda>r. ur_email r = u_email usr1) (users st)
                   then (Inl (unique_violation ''email'' (u_email usr1)), st)
                   else
                     (let row = \<lparr>ur_id = user_seq st, ur_email = u_email usr1,
                                 ur_fullName = fullName, ur_password = password,
                                 ur_isActive = (case u_isActive usr1 of None \<Rightarrow> True | Some b \<Rightarrow> b),
                                 ur_roles = (case u_roles usr1 of None \<Rightarrow> [''teacher''] | Some rs \<Rightarrow> rs)\<rparr>
                      in (Inr (user_of_row row),
                          st\<lparr>users := users st @ [row], user_seq := Suc (user_seq st)\<rparr>)))))"

text \<open>
  \<open>userRepository.findOne({where: {email}, select: {email, password, id}})\<close>: the first row
  whose email equals the argument, with the three selected columns only.
\<close>

definition userRepository_findOne :: "string \<Rightarrow> auth_state \<Rightarrow> user option" where
  "userRepository_findOne email st =
     (case find (\<lambda>r. ur_email r = email) (users st) of
        None \<Rightarrow> None
      | Some r \<Rightarrow>
          Some \<lparr>u_id = Some (ur_id r), u_email = ur_email r, u_fullName = None,
                u_password = Some (ur_password r), u_isActive = None, u_roles = None\<rparr>)"

definition encryptPassword :: "crypto \<Rightarrow> string \<Rightarrow> string" where
  "encryptPassword cr password = hashSync cr password"

definition getJwtToken :: "crypto \<Rightarrow> Jwt \<Rightarrow> string" where
  "getJwtToken cr payload = (let token = sign cr payload in token)"

text \<open>
  \<open>AuthService.handleException\<close>: logs the error; throws when the code is 23505,
  and otherwise returns, so that the caller's \<open>catch\<close> block ends and the service method
  resolves with \<open>undefined\<close> (\<open>Inr None\<close>).
\<close>

definition AuthService_handleException ::
  "error \<Rightarrow> auth_state \<Rightarrow> (exn + auth_response option) \<times> auth_state" where
  "AuthService_handleException err st =
     (let st1 = st\<lparr>auth_log := auth_log st @ [err]\<rparr>
      in if e_code err = Some ''23505''
         then (Inl (InternalServerErrorException (e_detail err)), st1)
         else (Inr None, st1))"

text \<open>\<open>AuthService.create\<close> (register).\<close>

definition AuthService_create ::
  "crypto \<Rightarrow> error option \<Rightarrow> CreateUserDto \<Rightarrow> auth_state \<Rightarrow>
   (exn + auth_response option) \<times> auth_state" where
  "AuthService_create cr fault createUserDto st =
     (let usr = userRepository_create (cu_email createUserDto) (cu_fullName createUserDto)
                  (encryptPassword cr (cu_password createUserDto))
      in case userRepository_save fault usr st of
           (Inl err, st1) \<Rightarrow> AuthService_handleException err st1
         | (Inr saved, st1) \<Rightarrow>
             (Inr (Some \<lparr>r_user = saved\<lparr>u_password := None\<rparr>,
                         r_token = getJwtToken cr
                                     \<lparr>jwt_id = u_id saved, jwt_email = u_email saved\<rparr>\<rparr>),
              st1))"

text \<open>
  \<open>AuthService.login\<close>. It reads the table and writes nothing. \<open>compareSync\<close> with an
  undefined hash throws inside the library.
\<close>

definition AuthService_login :: "crypto \<Rightarrow> LoginDto \<Rightarrow> auth_state \<Rightarrow> exn + auth_response" where
  "AuthService_login cr loginDto st =
     (let email = l_email loginDto; password = l_password loginDto
      in case userRepository_findOne email st of
           None \<Rightarrow> Inl (NotFoundException (''User '' @ email @ '' not found''))
         | Some usr \<Rightarrow>
             (case u_password usr of
                None \<Rightarrow>
                  Inl (Thrown \<lparr>e_code = None, e_detail = ''data and hash arguments required''\<rparr>)
              | Some h \<Rightarrow>
                  if \<not> compareSync cr password h
                  then Inl (UnauthorizedException ''Email or password incorrect'')
                  else Inr \<lparr>r_user = usr\<lparr>u_password := None\<rparr>,
                            r_token = getJwtToken cr
                                        \<lparr>jwt_id = u_id usr, jwt_email = u_email usr\<rparr>\<rparr>))"

definition empty_auth_state :: auth_state where
  "empty_auth_state = \<lparr>users = [], user_seq = 0, auth_log = []\<rparr>"

text \<open>A stand-in for the two libraries, for the concrete examples only.\<close>

definition example_crypto :: crypto where
  "example_crypto =
     \<lparr>hashSync = (\<lambda>p. ''$2b$10$'' @ rev p),
      compareSync = (\<lambda>p h. h = ''$2b$10$'' @ rev p),
      sign = (\<lambda>payload. ''jwt.'' @ jwt_email payload)\<rparr>"

definition ana_registration :: CreateUserDto where
  "ana_registration =
     \<lparr>cu_email = ''Ana@Mail.com'', cu_fullName = ''Ana'', cu_password = ''secret1''\<rparr>"

definition ana_registered :: auth_state where
  "ana_registered =
     \<lparr>users = [\<lparr>ur_id = 0, ur_email = ''ana@mail.com'', ur_fullName = ''Ana'',
                 ur_password = ''$2b$10$1terces'', ur_isActive = True,
                 ur_roles = [''teacher'']\<rparr>],
      user_seq = 1, auth_log = []\<rparr>"

section \<open>Student records and grade entries\<close>

text \<open>
  The \<open>Grade\<close> entity, which is also the element type of \<open>grades\<close> in the DTOs
  (\<open>id?: string\<close>, \<open>subject\<close>, \<open>grade: number\<close>). The column of \<open>grade\<close> is declared
  as text; the model keeps the number.
\<close>

record Grade =
  g_id :: "nat option"
  g_subject :: string
  g_grade :: rat

text \<open>
  The \<open>Student\<close> entity as an object in memory: without id and nickname when built from
  a create DTO, with all columns and the eagerly loaded \<open>grade\<close> relation when loaded.
\<close>

record Student =
  s_id :: "nat option"
  s_name :: string
  s_age :: jsnumber
  s_email :: string
  s_nickname :: "string option"
  s_gender :: string
  s_subjects :: "string list"
  s_grade :: "Grade list option"

record CreateStudentDto =
  c_name :: string
  c_age :: "nat option"
  c_email :: string
  c_gender :: string
  c_subjects :: "string list"
  c_grades :: "Grade list option"

text \<open>\<open>UpdateStudentDto = PartialType(CreateStudentDto)\<close>: every field may be absent.\<close>

record UpdateStudentDto =
  up_name :: "string option"
  up_age :: "nat option"
  up_email :: "string option"
  up_gender :: "string option"
  up_subjects :: "string list option"
  up_grades :: "Grade list option"

text \<open>The two tables, and the source of generated UUIDs (a counter here).\<close>

record student_row =
  sr_id :: nat
  sr_name :: string
  sr_age :: "nat option"
  sr_email :: string
  sr_nickname :: string
  sr_gender :: string
  sr_subjects :: "string list"

record grade_row =
  gr_id :: nat
  gr_subject :: string
  gr_grade :: rat
  gr_studentId :: "nat option"

record database =
  students :: "student_row list"
  grades :: "grade_row list"
  uuid_seq :: nat

subsection \<open>Lifecycle hooks of \<open>Student\<close>\<close>

text \<open>
  \<open>checkNicknameInsert\<close>: \<open>!this.nickname\<close> holds for a missing and for an empty
  nickname. \<open>checkNicknameUpdate\<close> starts from the nickname the object has; on an object
  without nickname \<open>this.nickname.toLowerCase()\<close> is a TypeError.
\<close>

definition checkNicknameInsert :: "Student \<Rightarrow> Student" where
  "checkNicknameInsert this =
     (let nickname = (case s_nickname this of
                        None \<Rightarrow> s_name this
                      | Some n \<Rightarrow> if n = [] then s_name this else n)
      in this\<lparr>s_nickname :=
                Some (replace_first CHR '' '' CHR ''_'' (toLowerCase nickname)
                      @ string_of_jsnumber (s_age this))\<rparr>)"

definition checkNicknameUpdate :: "Student \<Rightarrow> error + Student" where
  "checkNicknameUpdate this =
     (case s_nickname this of
        None \<Rightarrow> Inl \<lparr>e_code = None, e_detail = ''TypeError: this.nickname is undefined''\<rparr>
      | Some nickname \<Rightarrow>
          Inr (this\<lparr>s_nickname :=
                      Some (replace_first CHR '' '' CHR ''_'' (toLowerCase nickname)
                            @ string_of_jsnumber (s_age this))\<rparr>))"

text \<open>
  The derivation the spec and the comments of the two hooks describe: the name in lower
  case, spaces replaced by underscores, the age appended.
\<close>

definition nickname_derivation :: "string \<Rightarrow> jsnumber \<Rightarrow> string" where
  "nickname_derivation name age =
     map (\<lambda>c. if c = CHR '' '' then CHR ''_'' else c) (toLowerCase name)
     @ string_of_jsnumber age"

subsection \<open>Loading and saving\<close>

fun age_column :: "jsnumber \<Rightarrow> nat option" where
  "age_column (Num n) = Some n"
| "age_column Undefined = None"
| "age_column Null = None"

definition Grade_of_row :: "grade_row \<Rightarrow> Grade" where
  "Grade_of_row r = \<lparr>g_id = Some (gr_id r), g_subject = gr_subject r, g_grade = gr_grade r\<rparr>"

definition grades_of :: "database \<Rightarrow> nat \<Rightarrow> grade_row list" where
  "grades_of d i = filter (\<lambda>g. gr_studentId g = Some i) (grades d)"

definition Student_of_row :: "database \<Rightarrow> student_row \<Rightarrow> Student" where
  "Student_of_row d r =
     \<lparr>s_id = Some (sr_id r), s_name = sr_name r,
      s_age = (case sr_age r of None \<Rightarrow> Null | Some n \<Rightarrow> Num n),
      s_email = sr_email r, s_nickname = Some (sr_nickname r), s_gender = sr_gender r,
      s_subjects = sr_subjects r,
      s_grade = Some (map Grade_of_row (grades_of d (sr_id r)))\<rparr>"

definition findOneBy_id :: "database \<Rightarrow> nat \<Rightarrow> Student option" where
  "findOneBy_id d i = map_option (Student_of_row d) (find (\<lambda>r. sr_id r = i) (students d))"

text \<open>
  \<open>studentRepository.preload({id, ...studentDetails})\<close>: loads the record with that id
  and overwrites the properties present in the plain object; \<open>undefined\<close> when no record
  has the id.
\<close>

definition preload :: "database \<Rightarrow> nat \<Rightarrow> UpdateStudentDto \<Rightarrow> Student option" where
  "preload d i studentDetails =
     (case findOneBy_id d i of
        None \<Rightarrow> None
      | Some s \<Rightarrow>
          Some (s\<lparr>s_name := (case up_name studentDetails of None \<Rightarrow> s_name s | Some v \<Rightarrow> v),
                  s_age := (case up_age studentDetails of None \<Rightarrow> s_age s | Some v \<Rightarrow> Num v),
                  s_email := (case up_email studentDetails of None \<Rightarrow> s_email s | Some v \<Rightarrow> v),
                  s_gender := (case up_gender studentDetails of None \<Rightarrow> s_gender s | Some v \<Rightarrow> v),
                  s_subjects := (case up_subjects studentDetails of
                                   None \<Rightarrow> s_subjects s | Some v \<Rightarrow> v)\<rparr>))"

text \<open>
  \<open>gradeRepository.create(grade)\<close> copies the properties of the plain object that are
  columns of the entity, the id included when the object has one.
\<close>

definition gradeRepository_create :: "Grade \<Rightarrow> Grade" where
  "gradeRepository_create grade =
     \<lparr>g_id = g_id grade, g_subject = g_subject grade, g_grade = g_grade grade\<rparr>"

definition studentRepository_create :: "CreateStudentDto \<Rightarrow> Grade list \<Rightarrow> Student" where
  "studentRepository_create studentDetails gs =
     \<lparr>s_id = None, s_name = c_name studentDetails,
      s_age = (case c_age studentDetails of None \<Rightarrow> Undefined | Some n \<Rightarrow> Num n),
      s_email = c_email studentDetails, s_nickname = None,
      s_gender = c_gender studentDetails, s_subjects = c_subjects studentDetails,
      s_grade = Some gs\<rparr>"

text \<open>
  The cascade of a save to one grade of the record with id \<open>sid\<close>: a grade without id is
  inserted under a generated id; a grade with the id of a stored row updates that row; a
  grade with an id that no row has is inserted under that id.
\<close>

definition cascade_grade :: "nat \<Rightarrow> Grade \<Rightarrow> database \<Rightarrow> Grade \<times> database" where
  "cascade_grade sid g d =
     (case g_id g of
        None \<Rightarrow>
          (g\<lparr>g_id := Some (uuid_seq d)\<rparr>,
           d\<lparr>grades := grades d @ [\<lparr>gr_id = uuid_seq d, gr_subject = g_subject g,
                                     gr_grade = g_grade g, gr_studentId = Some sid\<rparr>],
             uuid_seq := Suc (uuid_seq d)\<rparr>)
      | Some i \<Rightarrow>
          if list_ex (\<lambda>r. gr_id r = i) (grades d)
          then (g, d\<lparr>grades := map (\<lambda>r. if gr_id r = i
                                          then r\<lparr>gr_subject := g_subject g, gr_grade := g_grade g,
                                                 gr_studentId := Some sid\<rparr>
                                          else r) (grades d)\<rparr>)
          else (g, d\<lparr>grades := grades d @ [\<lparr>gr_id = i, gr_subject = g_subject g,
                                             gr_grade = g_grade g, gr_studentId = Some sid\<rparr>]\<rparr>))"

fun cascade_grades :: "nat \<Rightarrow> Grade list \<Rightarrow> database \<Rightarrow> Grade list \<times> database" where
  "cascade_grades sid [] d = ([], d)"
| "cascade_grades sid (g # gs) d =
     (case cascade_grade sid g d of
        (g1, d1) \<Rightarrow> (case cascade_grades sid gs d1 of (gs1, d2) \<Rightarrow> (g1 # gs1, d2)))"

definition cascade_relation :: "nat \<Rightarrow> Student \<Rightarrow> database \<Rightarrow> Student \<times> database" where
  "cascade_relation sid s d =
     (case s_grade s of
        None \<Rightarrow> (s, d)
      | Some gs \<Rightarrow> (case cascade_grades sid gs d of (gs1, d1) \<Rightarrow> (s\<lparr>s_grade := Some gs1\<rparr>, d1)))"

definition row_of_Student :: "nat \<Rightarrow> string \<Rightarrow> Student \<Rightarrow> student_row" where
  "row_of_Student i nickname s =
     \<lparr>sr_id = i, sr_name = s_name s, sr_age = age_column (s_age s), sr_email = s_email s,
      sr_nickname = nickname, sr_gender = s_gender s, sr_subjects = s_subjects s\<rparr>"

text \<open>
  Insert of a record: the \<open>BeforeInsert\<close> hook runs, the unique index on \<open>email\<close> rejects
  a stored email, the row is written under the id of the object or a generated one, and
  the save cascades to the grades.
\<close>

definition insert_Student :: "Student \<Rightarrow> database \<Rightarrow> error + Student \<times> database" where
  "insert_Student s d =
     (let s1 = checkNicknameInsert s in
      case s_nickname s1 of
        None \<Rightarrow> Inl (not_null_violation ''nickname'')
      | Some nickname \<Rightarrow>
          if list_ex (\<lambda>r. sr_email r = s_email s1) (students d)
          then Inl (unique_violation ''email'' (s_email s1))
          else
            (let i = (case s_id s1 of None \<Rightarrow> uuid_seq d | Some j \<Rightarrow> j);
                 d1 = d\<lparr>students := students d @ [row_of_Student i nickname s1],
                        uuid_seq := (case s_id s1 of None \<Rightarrow> Suc (uuid_seq d)
                                     | Some j \<Rightarrow> uuid_seq d)\<rparr>
             in Inr (cascade_relation i (s1\<lparr>s_id := Some i\<rparr>) d1)))"

text \<open>
  Update of the stored row \<open>row\<close> from the object: when no column of the object differs
  from the row, no UPDATE is issued and the \<open>BeforeUpdate\<close> hook does not run; otherwise
  the hook runs, the unique index on \<open>email\<close> is checked against the other rows, and the
  row is rewritten. In both cases the save cascades to the grades.
\<close>

definition columns_unchanged :: "Student \<Rightarrow> student_row \<Rightarrow> bool" where
  "columns_unchanged s row =
     (s_name s = sr_name row \<and> age_column (s_age s) = sr_age row \<and>
      s_email s = sr_email row \<and> s_nickname s = Some (sr_nickname row) \<and>
      s_gender s = sr_gender row \<and> s_subjects s = sr_subjects row)"

definition update_Student ::
  "nat \<Rightarrow> student_row \<Rightarrow> Student \<Rightarrow> database \<Rightarrow> error + Student \<times> database" where
  "update_Student i row s d =
     (if columns_unchanged s row then Inr (cascade_relation i s d)
      else
        (case checkNicknameUpdate s of
           Inl e \<Rightarrow> Inl e
         | Inr s1 \<Rightarrow>
            (case s_nickname s1 of
               None \<Rightarrow> Inl (not_null_violation ''nickname'')
             | Some nickname \<Rightarrow>
                 if list_ex (\<lambda>r. sr_email r = s_email s1 \<and> sr_id r \<noteq> i) (students d)
                 then Inl (unique_violation ''email'' (s_email s1))
                 else Inr (cascade_relation i s1
                        (d\<lparr>students := map (\<lambda>r. if sr_id r = i
                                                  then row_of_Student i nickname s1 else r)
                                          (students d)\<rparr>)))))"

definition save_Student :: "Student \<Rightarrow> database \<Rightarrow> error + Student \<times> database" where
  "save_Student s d =
     (case s_id s of
        None \<Rightarrow> insert_Student s d
      | Some i \<Rightarrow>
          (case find (\<lambda>r. sr_id r = i) (students d) of
             None \<Rightarrow> insert_Student s d
           | Some row \<Rightarrow> update_Student i row s d))"

section \<open>The students service\<close>

text \<open>
  The state the service works on: the durable content of the database; the working copy
  of the transaction that is open on the query runner, if one is; whether the runner has
  acquired a connection and whether it has released it; and what \<open>logger.error\<close> has
  written. Repository calls read and write the durable content (each save is atomic);
  calls through \<open>queryRunner.manager\<close> work on the open transaction.
\<close>

record world =
  durable :: database
  tx :: "database option"
  acquired :: bool
  released :: bool
  students_log :: "error list"

text \<open>
  Every call to the persistence layer can fail for a reason that is not in the data (a
  lost connection, a value the column type rejects): \<open>faults\<close> says, for each call site
  of the service, whether the call throws and what.
\<close>

datatype site =
    AtPreload | AtConnect | AtStartTransaction | AtDelete | AtSave | AtCommit | AtRelease
  | AtFindOne | AtRollback | AtReleaseInCatch | AtCreateSave | AtDeleteAll

type_synonym faults = "site \<Rightarrow> error option"

definition no_faults :: faults where
  "no_faults = (\<lambda>_. None)"

definition transaction_not_started :: error where
  "transaction_not_started = \<lparr>e_code = None, e_detail = ''TransactionNotStartedError''\<rparr>"

subsection \<open>The query runner\<close>

definition createQueryRunner :: "world \<Rightarrow> world" where
  "createQueryRunner w = w\<lparr>tx := None, acquired := False, released := False\<rparr>"

definition connect :: "faults \<Rightarrow> world \<Rightarrow> (error + unit) \<times> world" where
  "connect F w =
     (case F AtConnect of
        Some e \<Rightarrow> (Inl e, w)
      | None \<Rightarrow> (Inr (), w\<lparr>acquired := True\<rparr>))"

definition startTransaction :: "faults \<Rightarrow> world \<Rightarrow> (error + unit) \<times> world" where
  "startTransaction F w =
     (case F AtStartTransaction of
        Some e \<Rightarrow> (Inl e, w)
      | None \<Rightarrow> (Inr (), w\<lparr>tx := Some (durable w)\<rparr>))"

text \<open>
  \<open>queryRunner.manager.delete(Grade, {student: {id}})\<close>: removes the grade rows of the
  record, in the open transaction (or directly, when none is open).
\<close>

definition delete_grades_of :: "nat \<Rightarrow> database \<Rightarrow> database" where
  "delete_grades_of i d = d\<lparr>grades := filter (\<lambda>g. gr_studentId g \<noteq> Some i) (grades d)\<rparr>"

definition manager_delete :: "faults \<Rightarrow> nat \<Rightarrow> world \<Rightarrow> (error + unit) \<times> world" where
  "manager_delete F i w =
     (case F AtDelete of
        Some e \<Rightarrow> (Inl e, w)
      | None \<Rightarrow>
          (case tx w of
             Some d \<Rightarrow> (Inr (), w\<lparr>tx := Some (delete_grades_of i d)\<rparr>)
           | None \<Rightarrow> (Inr (), w\<lparr>durable := delete_grades_of i (durable w)\<rparr>)))"

definition manager_save :: "faults \<Rightarrow> Student \<Rightarrow> world \<Rightarrow> (error + Student) \<times> world" where
  "manager_save F s w =
     (case F AtSave of
        Some e \<Rightarrow> (Inl e, w)
      | None \<Rightarrow>
          (case tx w of
             Some d \<Rightarrow>
               (case save_Student s d of
                  Inl e \<Rightarrow> (Inl e, w)
                | Inr (s1, d1) \<Rightarrow> (Inr s1, w\<lparr>tx := Some d1\<rparr>))
           | None \<Rightarrow>
               (case save_Student s (durable w) of
                  Inl e \<Rightarrow> (Inl e, w)
                | Inr (s1, d1) \<Rightarrow> (Inr s1, w\<lparr>durable := d1\<rparr>))))"

text \<open>
  Commit makes the working copy durable; rollback discards it. Both throw when no
  transaction is open, and when the statement itself fails the transaction stays open.
\<close>

definition commitTransaction :: "faults \<Rightarrow> world \<Rightarrow> (error + unit) \<times> world" where
  "commitTransaction F w =
     (case tx w of
        None \<Rightarrow> (Inl transaction_not_started, w)
      | Some d \<Rightarrow>
          (case F AtCommit of
             Some e \<Rightarrow> (Inl e, w)
           | None \<Rightarrow> (Inr (), w\<lparr>durable := d, tx := None\<rparr>)))"

definition rollbackTransaction :: "faults \<Rightarrow> world \<Rightarrow> (error + unit) \<times> world" where
  "rollbackTransaction F w =
     (case tx w of
        None \<Rightarrow> (Inl transaction_not_started, w)
      | Some d \<Rightarrow>
          (case F AtRollback of
             Some e \<Rightarrow> (Inl e, w)
           | None \<Rightarrow> (Inr (), w\<lparr>tx := None\<rparr>)))"

definition release :: "faults \<Rightarrow> site \<Rightarrow> world \<Rightarrow> (error + unit) \<times> world" where
  "release F call w =
     (case F call of
        Some e \<Rightarrow> (Inl e, w)
      | None \<Rightarrow> (Inr (), w\<lparr>released := True\<rparr>))"

subsection \<open>The repository\<close>

definition studentRepository_save ::
  "faults \<Rightarrow> Student \<Rightarrow> world \<Rightarrow> (error + Student) \<times> world" where
  "studentRepository_save F s w =
     (case F AtCreateSave of
        Some e \<Rightarrow> (Inl e, w)
      | None \<Rightarrow>
          (case save_Student s (durable w) of
             Inl e \<Rightarrow> (Inl e, w)
           | Inr (s1, d1) \<Rightarrow> (Inr s1, w\<lparr>durable := d1\<rparr>)))"

subsection \<open>The service methods\<close>

text \<open>
  \<open>StudentsService.handleException\<close>: logs the error; throws when the code is 23505 and
  otherwise returns, so that the calling method resolves with \<open>undefined\<close> (\<open>Inr None\<close>).
\<close>

definition handleException :: "error \<Rightarrow> world \<Rightarrow> (exn + Student option) \<times> world" where
  "handleException err w =
     (let w1 = w\<lparr>students_log := students_log w @ [err]\<rparr>
      in if e_code err = Some ''23505''
         then (Inl (InternalServerErrorException (e_detail err)), w1)
         else (Inr None, w1))"

text \<open>\<open>StudentsService.create\<close>.\<close>

definition create :: "faults \<Rightarrow> CreateStudentDto \<Rightarrow> world \<Rightarrow> (exn + Student option) \<times> world" where
  "create F createStudentDto w =
     (let gs = (case c_grades createStudentDto of None \<Rightarrow> [] | Some v \<Rightarrow> v);
          student = studentRepository_create createStudentDto (map gradeRepository_create gs)
      in case studentRepository_save F student w of
           (Inl err, w1) \<Rightarrow> handleException err w1
         | (Inr saved, w1) \<Rightarrow> (Inr (Some saved), w1))"

text \<open>
  \<open>StudentsService.findOne(term)\<close>: by id when the term is a UUID, otherwise by upper-cased
  name or lower-cased nickname; NotFound when no record matches.
\<close>

datatype search_term = UUID nat | Text string

fun string_of_term :: "search_term \<Rightarrow> string" where
  "string_of_term (UUID i) = string_of_nat i"
| "string_of_term (Text t) = t"

definition findOne :: "faults \<Rightarrow> search_term \<Rightarrow> world \<Rightarrow> exn + Student" where
  "findOne F t w =
     (case F AtFindOne of
        Some e \<Rightarrow> Inl (Thrown e)
      | None \<Rightarrow>
          (let student =
                 (case t of
                    UUID i \<Rightarrow> findOneBy_id (durable w) i
                  | Text s \<Rightarrow>
                      map_option (Student_of_row (durable w))
                        (find (\<lambda>r. toUpperCase (sr_name r) = toUpperCase s
                                    \<or> sr_nickname r = toLowerCase s)
                           (students (durable w))))
           in case student of
                None \<Rightarrow> Inl (NotFoundException (''Student with '' @ string_of_term t @ '' not found''))
              | Some s \<Rightarrow> Inr s))"

text \<open>
  \<open>StudentsService.update\<close>. \<open>update_try\<close> is the \<open>try\<close> block up to the release of
  the runner, \<open>update_catch\<close> the \<open>catch\<close> block. The promise of \<open>findOne\<close> is returned
  from the \<open>try\<close> block without \<open>await\<close>, so its rejection is not caught there.
\<close>

definition update_try ::
  "faults \<Rightarrow> nat \<Rightarrow> Grade list option \<Rightarrow> Student \<Rightarrow> world \<Rightarrow> (error + unit) \<times> world" where
  "update_try F i gs student w =
     (case (case gs of
              None \<Rightarrow> (Inr student, w)
            | Some v \<Rightarrow>
                (case manager_delete F i w of
                   (Inl e, w1) \<Rightarrow> (Inl e, w1)
                 | (Inr _, w1) \<Rightarrow>
                     (Inr (student\<lparr>s_grade := Some (map gradeRepository_create v)\<rparr>), w1))) of
        (Inl e, w1) \<Rightarrow> (Inl e, w1)
      | (Inr student1, w1) \<Rightarrow>
          (case manager_save F student1 w1 of
             (Inl e, w2) \<Rightarrow> (Inl e, w2)
           | (Inr _, w2) \<Rightarrow>
               (case commitTransaction F w2 of
                  (Inl e, w3) \<Rightarrow> (Inl e, w3)
                | (Inr _, w3) \<Rightarrow> release F AtRelease w3)))"

definition update_catch :: "faults \<Rightarrow> error \<Rightarrow> world \<Rightarrow> (exn + Student option) \<times> world" where
  "update_catch F err w =
     (case rollbackTransaction F w of
        (Inl e, w1) \<Rightarrow> (Inl (Thrown e), w1)
      | (Inr _, w1) \<Rightarrow>
          (case release F AtReleaseInCatch w1 of
             (Inl e, w2) \<Rightarrow> (Inl (Thrown e), w2)
           | (Inr _, w2) \<Rightarrow> handleException err w2))"

definition update ::
  "faults \<Rightarrow> nat \<Rightarrow> UpdateStudentDto \<Rightarrow> world \<Rightarrow> (exn + Student option) \<times> world" where
  "update F i updateStudentDto w =
     (case F AtPreload of
        Some e \<Rightarrow> (Inl (Thrown e), w)
      | None \<Rightarrow>
          (case preload (durable w) i updateStudentDto of
             None \<Rightarrow> (Inl (NotFoundException (''Student with id '' @ string_of_nat i @ '' not found'')), w)
           | Some student \<Rightarrow>
               (case connect F (createQueryRunner w) of
                  (Inl e, w1) \<Rightarrow> (Inl (Thrown e), w1)
                | (Inr _, w1) \<Rightarrow>
                    (case startTransaction F w1 of
                       (Inl e, w2) \<Rightarrow> (Inl (Thrown e), w2)
                     | (Inr _, w2) \<Rightarrow>
                         (case update_try F i (up_grades updateStudentDto) student w2 of
                            (Inl err, w3) \<Rightarrow> update_catch F err w3
                          | (Inr _, w3) \<Rightarrow>
                              (case findOne F (UUID i) w3 of
                                 Inl x \<Rightarrow> (Inl x, w3)
                               | Inr s \<Rightarrow> (Inr (Some s), w3)))))))"


text \<open>
  The in-memory record and the working copy as they stand when the \<open>try\<close> block reaches
  \<open>save\<close>: with a grades list, the fresh grade objects replace the loaded relation and
  the stored grades of the record are deleted.
\<close>

definition staged_student :: "Grade list option \<Rightarrow> Student \<Rightarrow> Student" where
  "staged_student gs student =
     (case gs of
        None \<Rightarrow> student
      | Some v \<Rightarrow> student\<lparr>s_grade := Some (map gradeRepository_create v)\<rparr>)"

definition staged_database :: "Grade list option \<Rightarrow> nat \<Rightarrow> database \<Rightarrow> database" where
  "staged_database gs i d = (case gs of None \<Rightarrow> d | Some v \<Rightarrow> delete_grades_of i d)"

section \<open>The seed service and the controllers\<close>












section \<open>Example data\<close>

definition empty_world :: world where
  "empty_world =
     \<lparr>durable = \<lparr>students = [], grades = [], uuid_seq = 0\<rparr>, tx = None, acquired = False,
      released = False, students_log = []\<rparr>"

definition juan_dto :: CreateStudentDto where
  "juan_dto =
     \<lparr>c_name = ''Juan Perez'', c_age = Some 20, c_email = ''juan@mail.com'',
      c_gender = ''Male'', c_subjects = [''Math''],
      c_grades = Some [\<lparr>g_id = None, g_subject = ''Math'', g_grade = 9 / 2\<rparr>]\<rparr>"

definition juan_database :: database where
  "juan_database =
     \<lparr>students = [\<lparr>sr_id = 0, sr_name = ''Juan Perez'', sr_age = Some 20,
                    sr_email = ''juan@mail.com'', sr_nickname = ''juan_perez20'',
                    sr_gender = ''Male'', sr_subjects = [''Math'']\<rparr>],
      grades = [\<lparr>gr_id = 1, gr_subject = ''Math'', gr_grade = 9 / 2, gr_studentId = Some 0\<rparr>],
      uuid_seq = 2\<rparr>"

definition juan_world :: world where
  "juan_world = empty_world\<lparr>durable := juan_database\<rparr>"

definition no_change :: UpdateStudentDto where
  "no_change =
     \<lparr>up_name = None, up_age = None, up_email = None, up_gender = None, up_subjects = None,
      up_grades = None\<rparr>"

definition science_and_art :: "Grade list" where
  "science_and_art =
     [\<lparr>g_id = None, g_subject = ''Science'', g_grade = 4\<rparr>,
      \<lparr>g_id = None, g_subject = ''Art'', g_grade = 7 / 2\<rparr>]"

definition invalid_input_syntax :: error where
  "invalid_input_syntax =
     \<lparr>e_code = Some ''22P02'', e_detail = ''invalid input syntax for type integer''\<rparr>"

definition connection_terminated :: error where
  "connection_terminated = \<lparr>e_code = None, e_detail = ''Connection terminated''\<rparr>"

section \<open>Properties\<close>

subsection \<open>Facts about the cascade of a save\<close>


lemma cascade_grades_Cons_fst:
  "fst (cascade_grades sid (g # gs) d) =
     fst (cascade_grade sid g d) # fst (cascade_grades sid gs (snd (cascade_grade sid g d)))"
  by (simp add: split_def)








subsection \<open>Facts about the try and catch blocks of update\<close>

lemma update_catch_durable:
  "durable (snd (update_catch F err w)) = durable w"
  by (auto simp: update_catch_def rollbackTransaction_def release_def handleException_def Let_def
      split: option.splits sum.splits prod.splits)

lemma update_catch_tx:
  "F AtRollback = None \<Longrightarrow> tx w \<noteq> None \<Longrightarrow> tx (snd (update_catch F err w)) = None"
  by (auto simp: update_catch_def rollbackTransaction_def release_def handleException_def Let_def
      split: option.splits sum.splits prod.splits)

lemma update_try_fails:
  assumes "tx w = Some d"
    and "(gs \<noteq> None \<and> F AtDelete \<noteq> None) \<or> F AtSave \<noteq> None \<or> F AtCommit \<noteq> None \<or>
         isl (save_Student (staged_student gs student) (staged_database gs i d))"
  shows "\<exists>err w1. update_try F i gs student w = (Inl err, w1) \<and> durable w1 = durable w \<and> tx w1 \<noteq> None"
  using assms
  by (auto simp: update_try_def manager_delete_def manager_save_def commitTransaction_def
      release_def staged_student_def staged_database_def isl_def
      split: option.splits sum.splits prod.splits)

text \<open>
  When neither the rollback nor a release throws, every path of the update that opened
  a transaction releases the runner.
\<close>

lemma update_try_released:
  assumes "tx w \<noteq> None" and "F AtRelease = None"
  shows "(\<exists>w1. update_try F i gs student w = (Inr (), w1) \<and> released w1) \<or>
         (\<exists>err w1. update_try F i gs student w = (Inl err, w1) \<and> tx w1 \<noteq> None)"
  using assms
  by (auto simp: update_try_def manager_delete_def manager_save_def commitTransaction_def
      release_def split: option.splits sum.splits prod.splits)

lemma update_catch_released:
  assumes "tx w \<noteq> None" and "F AtRollback = None" and "F AtReleaseInCatch = None"
  shows "released (snd (update_catch F err w))"
  using assms
  by (auto simp: update_catch_def rollbackTransaction_def release_def handleException_def Let_def
      split: option.splits sum.splits prod.splits)

lemma update_releases_runner:
  assumes "preload (durable w) i dto = Some student"
    and "F AtPreload = None" and "F AtConnect = None" and "F AtStartTransaction = None"
    and "F AtRelease = None" and "F AtRollback = None" and "F AtReleaseInCatch = None"
  shows "released (snd (update F i dto w))"
proof -
  define w2 where "w2 = (createQueryRunner w)\<lparr>acquired := True, tx := Some (durable w)\<rparr>"
  have tx2: "tx w2 \<noteq> None" by (simp add: w2_def)
  have u: "update F i dto w =
      (case update_try F i (up_grades dto) student w2 of
         (Inl err, w3) \<Rightarrow> update_catch F err w3
       | (Inr _, w3) \<Rightarrow>
           (case findOne F (UUID i) w3 of Inl x \<Rightarrow> (Inl x, w3) | Inr s \<Rightarrow> (Inr (Some s), w3)))"
    using assms(1-4)
    by (simp add: update_def connect_def startTransaction_def w2_def createQueryRunner_def)
  from update_try_released [of w2 F i "up_grades dto" student, OF tx2 assms(5)]
  show ?thesis
  proof
    assume "\<exists>w1. update_try F i (up_grades dto) student w2 = (Inr (), w1) \<and> released w1"
    then show ?thesis unfolding u by (auto split: sum.splits)
  next
    assume "\<exists>err w1. update_try F i (up_grades dto) student w2 = (Inl err, w1) \<and> tx w1 \<noteq> None"
    then obtain err w1 where t: "update_try F i (up_grades dto) student w2 = (Inl err, w1)"
      and x: "tx w1 \<noteq> None" by blast
    show ?thesis
      unfolding u t using update_catch_released [of w1 F err, OF x assms(6,7)] by simp
  qed
qed

subsection \<open>Facts about a successful update\<close>







subsection \<open>Facts about seeding\<close>







subsection \<open>The claims\<close>

text \<open>
  C1. The role gate has to deny with Forbidden unless the roles of the account intersect
  the roles declared on the route. On the route that declares \<open>{admin}\<close>, for the account
  with roles \<open>{teacher}\<close>, the guard of the source grants access, while the implementation
  that its own comment documents as the correct one throws Forbidden.
\<close>

theorem canActivate_grants_without_role:
  "canActivate admin_route_context = Inr True \<and>
   canActivate_documented admin_route_context =
     Inl (ForbiddenException ''User does not have required role'')"
  by (simp add: canActivate_def canActivate_documented_def admin_route_context_def
      teacher_account_def reflector_get_def user_roles_def)

text \<open>
  C5. Email normalization is applied before storage but not before the comparison made by
  login: an account registered with \<open>Ana@Mail.com\<close> is stored under \<open>ana@mail.com\<close>, and
  a login that presents the very email of the registration fails with NotFound.
\<close>

theorem login_with_registered_email_not_found:
  "snd (AuthService_create example_crypto None ana_registration empty_auth_state)
     = ana_registered \<and>
   AuthService_login example_crypto
     \<lparr>l_email = ''Ana@Mail.com'', l_password = ''secret1''\<rparr> ana_registered
     = Inl (NotFoundException ''User Ana@Mail.com not found'')"
  by code_simp

text \<open>
  C6, as stated, fails: registering an email that is already stored returns a failure
  whose message is the detail of the constraint violation reported by the database,
  the same text that is logged.
\<close>

theorem register_duplicate_returns_database_detail:
  "AuthService_create example_crypto None
     \<lparr>cu_email = '' ANA@mail.com'', cu_fullName = ''Ana Two'', cu_password = ''secret2''\<rparr>
     ana_registered
   = (Inl (InternalServerErrorException ''Key (email)=(ana@mail.com) already exists.''),
      ana_registered\<lparr>auth_log := [\<lparr>e_code = Some ''23505'',
                          e_detail = ''Key (email)=(ana@mail.com) already exists.''\<rparr>]\<rparr>)"
  by code_simp

text \<open>
  C6, amended. When the normalized email of a registration is already stored, the
  registration fails with an internal-server-error failure whose message is the detail of
  the unique-constraint violation; the error is appended to the server log, and the table
  of accounts is unchanged.
\<close>

theorem register_duplicate_email:
  assumes "list_ex (\<lambda>r. ur_email r = trim (toLowerCase (cu_email dto))) (users st)"
  shows "AuthService_create cr None dto st =
     (Inl (InternalServerErrorException
            (''Key (email)=('' @ trim (toLowerCase (cu_email dto)) @ '') already exists.'')),
      st\<lparr>auth_log :=
           auth_log st @ [unique_violation ''email'' (trim (toLowerCase (cu_email dto)))]\<rparr>)"
  using assms
  by (simp add: AuthService_create_def userRepository_create_def
      AuthService_handleException_def userRepository_save_def checkFieldsBeforeChanges_def
      unique_violation_def Let_def)

theorem register_duplicate_email_witness:
  "list_ex (\<lambda>r. ur_email r = trim (toLowerCase (cu_email ana_registration)))
     (users ana_registered) \<and>
   AuthService_create example_crypto None ana_registration ana_registered =
     (Inl (InternalServerErrorException ''Key (email)=(ana@mail.com) already exists.''),
      ana_registered\<lparr>auth_log := [unique_violation ''email'' ''ana@mail.com'']\<rparr>)"
proof -
  have n: "trim (toLowerCase (cu_email ana_registration)) = ''ana@mail.com''"
    by code_simp
  have h: "list_ex (\<lambda>r. ur_email r = trim (toLowerCase (cu_email ana_registration)))
             (users ana_registered)"
    unfolding n by (simp add: ana_registered_def)
  show ?thesis
    using h register_duplicate_email [OF h, of example_crypto] unfolding n
    by (simp add: ana_registered_def)
qed

text \<open>
  C8. Login: when no stored account has the supplied email the result is NotFound; when
  the account is found and the password does not verify against its stored hash the result
  is Unauthorized; when it verifies, the result is the account as selected (id and email)
  without the password hash, together with the token signed for that id and email.
\<close>

theorem login_outcomes:
  "(find (\<lambda>r. ur_email r = l_email dto) (users st) = None \<longrightarrow>
      AuthService_login cr dto st
        = Inl (NotFoundException (''User '' @ l_email dto @ '' not found''))) \<and>
   (\<forall>row. find (\<lambda>r. ur_email r = l_email dto) (users st) = Some row \<and>
          \<not> compareSync cr (l_password dto) (ur_password row) \<longrightarrow>
      AuthService_login cr dto st
        = Inl (UnauthorizedException ''Email or password incorrect'')) \<and>
   (\<forall>row. find (\<lambda>r. ur_email r = l_email dto) (users st) = Some row \<and>
          compareSync cr (l_password dto) (ur_password row) \<longrightarrow>
      AuthService_login cr dto st =
        Inr \<lparr>r_user = \<lparr>u_id = Some (ur_id row), u_email = ur_email row, u_fullName = None,
                        u_password = None, u_isActive = None, u_roles = None\<rparr>,
             r_token = sign cr \<lparr>jwt_id = Some (ur_id row), jwt_email = ur_email row\<rparr>\<rparr>)"
  by (simp add: AuthService_login_def userRepository_findOne_def getJwtToken_def)

theorem login_outcomes_witness:
  "AuthService_login example_crypto
     \<lparr>l_email = ''bob@mail.com'', l_password = ''secret1''\<rparr> ana_registered
     = Inl (NotFoundException ''User bob@mail.com not found'') \<and>
   AuthService_login example_crypto
     \<lparr>l_email = ''ana@mail.com'', l_password = ''secret2''\<rparr> ana_registered
     = Inl (UnauthorizedException ''Email or password incorrect'') \<and>
   AuthService_login example_crypto
     \<lparr>l_email = ''ana@mail.com'', l_password = ''secret1''\<rparr> ana_registered
     = Inr \<lparr>r_user = \<lparr>u_id = Some 0, u_email = ''ana@mail.com'', u_fullName = None,
                        u_password = None, u_isActive = None, u_roles = None\<rparr>,
             r_token = ''jwt.ana@mail.com''\<rparr>"
  using
    login_outcomes [of "\<lparr>l_email = ''bob@mail.com'', l_password = ''secret1''\<rparr>"
      ana_registered example_crypto]
    login_outcomes [of "\<lparr>l_email = ''ana@mail.com'', l_password = ''secret2''\<rparr>"
      ana_registered example_crypto]
    login_outcomes [of "\<lparr>l_email = ''ana@mail.com'', l_password = ''secret1''\<rparr>"
      ana_registered example_crypto]
  by (simp add: ana_registered_def example_crypto_def)

text \<open>
  C3. The nickname has to be the normalized derivation of the merged name and age on
  every create and update. Creating Juan Perez, 20, stores \<open>juan_perez20\<close>; updating his
  age to 21 stores \<open>juan_perez2021\<close>, because the update hook starts from the stored
  nickname and not from the name, while the derivation (and the comment of the hook) gives
  \<open>juan_perez21\<close>. On create, a name with two spaces keeps its second space.
\<close>

theorem update_appends_age_to_stored_nickname:
  "create no_faults juan_dto empty_world =
     (Inr (Some \<lparr>s_id = Some 0, s_name = ''Juan Perez'', s_age = Num 20,
                 s_email = ''juan@mail.com'', s_nickname = Some ''juan_perez20'',
                 s_gender = ''Male'', s_subjects = [''Math''],
                 s_grade = Some [\<lparr>g_id = Some 1, g_subject = ''Math'', g_grade = 9 / 2\<rparr>]\<rparr>),
      juan_world) \<and>
   map sr_nickname
     (students (durable (snd (update no_faults 0 (no_change\<lparr>up_age := Some 21\<rparr>) juan_world))))
     = [''juan_perez2021''] \<and>
   nickname_derivation ''Juan Perez'' (Num 21) = ''juan_perez21'' \<and>
   s_nickname (checkNicknameInsert
                 (studentRepository_create (juan_dto\<lparr>c_name := ''Ana Maria Lopez''\<rparr>) []))
     = Some ''ana_maria lopez20'' \<and>
   nickname_derivation ''Ana Maria Lopez'' (Num 20) = ''ana_maria_lopez20''"
  by code_simp

text \<open>
  C7. Every failure during a create or an update has to reach the caller as a failure.
  When the save throws a database error whose code is not 23505, \<open>handleException\<close> logs
  it and returns, and both \<open>create\<close> and \<open>update\<close> resolve with \<open>undefined\<close>: no record
  and no error.
\<close>

theorem persistence_failure_returns_undefined:
  "create (no_faults(AtCreateSave := Some invalid_input_syntax)) juan_dto empty_world
     = (Inr None, empty_world\<lparr>students_log := [invalid_input_syntax]\<rparr>) \<and>
   update (no_faults(AtSave := Some invalid_input_syntax)) 0
       (no_change\<lparr>up_age := Some 21\<rparr>) juan_world
     = (Inr None, juan_world\<lparr>acquired := True, released := True,
                             students_log := [invalid_input_syntax]\<rparr>)"
  by code_simp

text \<open>
  C9. The query runner has to be released on every exit path of the update. When the save
  fails and the rollback in the \<open>catch\<close> block throws as well, the update ends with the
  connection acquired and not released (and the transaction still open).
\<close>

theorem rollback_failure_leaves_runner_unreleased:
  "update (no_faults(AtSave := Some invalid_input_syntax,
                     AtRollback := Some connection_terminated))
     0 (no_change\<lparr>up_grades := Some science_and_art\<rparr>) juan_world
   = (Inl (Thrown connection_terminated),
      juan_world\<lparr>tx := Some (juan_database\<lparr>grades := []\<rparr>), acquired := True,
                  released := False\<rparr>)"
  by code_simp

text \<open>
  C2. In an update of an existing record whose transaction was opened, if a step inside
  the transaction fails (the grade delete, the save of the record with its new grades,
  whether the failure comes from the connection or from the data, or the commit), then the
  durable content of the database after the update is what it was before, so the grade
  collection of the record is intact; and when the rollback itself succeeds no transaction
  remains open.
\<close>

theorem update_failure_rolls_back:
  assumes "preload (durable w) i dto = Some student"
    and "F AtPreload = None" and "F AtConnect = None" and "F AtStartTransaction = None"
    and "(up_grades dto \<noteq> None \<and> F AtDelete \<noteq> None) \<or> F AtSave \<noteq> None \<or> F AtCommit \<noteq> None \<or>
         isl (save_Student (staged_student (up_grades dto) student)
                (staged_database (up_grades dto) i (durable w)))"
  shows "durable (snd (update F i dto w)) = durable w \<and>
         grades_of (durable (snd (update F i dto w))) i = grades_of (durable w) i \<and>
         (F AtRollback = None \<longrightarrow> tx (snd (update F i dto w)) = None)"
proof -
  define w2 where "w2 = (createQueryRunner w)\<lparr>acquired := True, tx := Some (durable w)\<rparr>"
  have tx2: "tx w2 = Some (durable w)" and d2: "durable w2 = durable w"
    by (simp_all add: w2_def createQueryRunner_def)
  from update_try_fails [OF tx2 assms(5)]
  obtain err w3 where t: "update_try F i (up_grades dto) student w2 = (Inl err, w3)"
    and d3: "durable w3 = durable w2" and tx3: "tx w3 \<noteq> None"
    by blast
  have u: "update F i dto w = update_catch F err w3"
    using assms(1-4) t
    by (simp add: update_def connect_def startTransaction_def w2_def createQueryRunner_def)
  have "durable (snd (update F i dto w)) = durable w"
    unfolding u by (simp add: update_catch_durable d3 d2)
  moreover have "F AtRollback = None \<longrightarrow> tx (snd (update F i dto w)) = None"
    unfolding u using update_catch_tx [OF _ tx3] by simp
  ultimately show ?thesis by simp
qed

theorem update_failure_rolls_back_witness:
  "preload (durable juan_world) 0 (no_change\<lparr>up_grades := Some science_and_art\<rparr>)
     \<noteq> None \<and>
   (no_faults(AtSave := Some invalid_input_syntax)) AtSave \<noteq> None \<and>
   durable (snd (update (no_faults(AtSave := Some invalid_input_syntax)) 0
                   (no_change\<lparr>up_grades := Some science_and_art\<rparr>) juan_world))
     = juan_database \<and>
   grades_of (durable (snd (update (no_faults(AtSave := Some invalid_input_syntax)) 0
                   (no_change\<lparr>up_grades := Some science_and_art\<rparr>) juan_world))) 0
     = [\<lparr>gr_id = 1, gr_subject = ''Math'', gr_grade = 9 / 2, gr_studentId = Some 0\<rparr>] \<and>
   tx (snd (update (no_faults(AtSave := Some invalid_input_syntax)) 0
              (no_change\<lparr>up_grades := Some science_and_art\<rparr>) juan_world)) = None"
proof -
  define F where "F = no_faults(AtSave := Some invalid_input_syntax)"
  define dto where "dto = no_change\<lparr>up_grades := Some science_and_art\<rparr>"
  define student where "student = Student_of_row juan_database (hd (students juan_database))"
  have d: "durable juan_world = juan_database"
    by (simp add: juan_world_def empty_world_def)
  have f: "findOneBy_id juan_database 0 = Some student"
    by (simp add: findOneBy_id_def student_def juan_database_def)
  have p: "preload (durable juan_world) 0 dto = Some student"
    by (simp add: preload_def d f dto_def no_change_def)
  have ok: "F AtPreload = None" "F AtConnect = None" "F AtStartTransaction = None"
    "F AtRollback = None"
    by (simp_all add: F_def no_faults_def)
  have bad: "(up_grades dto \<noteq> None \<and> F AtDelete \<noteq> None) \<or> F AtSave \<noteq> None \<or>
      F AtCommit \<noteq> None \<or>
      isl (save_Student (staged_student (up_grades dto) student)
             (staged_database (up_grades dto) 0 (durable juan_world)))"
    by (simp add: F_def)
  have g: "grades_of juan_database 0
             = [\<lparr>gr_id = 1, gr_subject = ''Math'', gr_grade = 9 / 2, gr_studentId = Some 0\<rparr>]"
    by (simp add: grades_of_def juan_database_def)
  have r: "durable (snd (update F 0 dto juan_world)) = juan_database \<and>
      grades_of (durable (snd (update F 0 dto juan_world))) 0
        = [\<lparr>gr_id = 1, gr_subject = ''Math'', gr_grade = 9 / 2, gr_studentId = Some 0\<rparr>] \<and>
      tx (snd (update F 0 dto juan_world)) = None"
    using update_failure_rolls_back [OF p ok(1-3) bad] ok(4) g by (simp add: d)
  have nz: "F AtSave \<noteq> None" by (simp add: F_def)
  have pz: "preload (durable juan_world) 0 dto \<noteq> None" using p by simp
  show ?thesis
    using r nz pz unfolding F_def dto_def by blast
qed






end
